theory Spec2Isabelle
  imports Main
begin

unbundle bit_operations_syntax

section \<open>The toolkit surface used by \<open>balQt/stacked_widget.py\<close>\<close>

text \<open>
  \<open>StackedWidget\<close> reads three things from the toolkit (a widget's \<open>sizeHint()\<close>,
  \<open>geometry()\<close> and \<open>layoutDirection()\<close>) and writes through five setters. The model
  keeps, for every widget, the values the getters return and the values the setters were
  last given, together with the list of setter calls in the order they were made. Pixel
  coordinates are Python integers, hence \<open>int\<close>; Python's \<open>//\<close> is floor division, which
  is \<open>div\<close> on \<open>int\<close>.
\<close>

subsection \<open>\<open>Qt.AlignmentFlag\<close> and \<open>Qt.LayoutDirection\<close>\<close>

text \<open>
  An alignment is a flag word. The constants are those of the \<open>Qt\<close> namespace
  (\<open>enum Qt::AlignmentFlag\<close>): \<open>AlignLeft = 0x0001\<close>, \<open>AlignLeading = AlignLeft\<close>,
  \<open>AlignRight = 0x0002\<close>, \<open>AlignTrailing = AlignRight\<close>, \<open>AlignHCenter = 0x0004\<close>,
  \<open>AlignJustify = 0x0008\<close>, \<open>AlignAbsolute = 0x0010\<close>, \<open>AlignTop = 0x0020\<close>,
  \<open>AlignBottom = 0x0040\<close>, \<open>AlignVCenter = 0x0080\<close>, \<open>AlignBaseline = 0x0100\<close>,
  \<open>AlignCenter = AlignVCenter | AlignHCenter\<close>. The enum documents \<open>AlignLeading\<close> as a
  synonym for \<open>AlignLeft\<close> and \<open>AlignTrailing\<close> as a synonym for \<open>AlignRight\<close>; every
  binding exposes them with these values. Python's \<open>==\<close> and \<open>in\<close> compare flags by
  value, so a combination such as \<open>AlignLeft | AlignTop\<close> equals none of the constants.
  \<open>QWidget.layoutDirection()\<close> returns a \<open>Qt.LayoutDirection\<close>.
\<close>

type_synonym Alignment = int

definition AlignLeft :: Alignment where "AlignLeft = 0x0001"
definition AlignLeading :: Alignment where "AlignLeading = AlignLeft"
definition AlignRight :: Alignment where "AlignRight = 0x0002"
definition AlignTrailing :: Alignment where "AlignTrailing = AlignRight"
definition AlignHCenter :: Alignment where "AlignHCenter = 0x0004"
definition AlignJustify :: Alignment where "AlignJustify = 0x0008"
definition AlignAbsolute :: Alignment where "AlignAbsolute = 0x0010"
definition AlignTop :: Alignment where "AlignTop = 0x0020"
definition AlignBottom :: Alignment where "AlignBottom = 0x0040"
definition AlignVCenter :: Alignment where "AlignVCenter = 0x0080"
definition AlignBaseline :: Alignment where "AlignBaseline = 0x0100"
definition AlignCenter :: Alignment where "AlignCenter = AlignVCenter OR AlignHCenter"

lemmas Align_defs =
  AlignLeft_def AlignLeading_def AlignRight_def AlignTrailing_def AlignHCenter_def
  AlignJustify_def AlignAbsolute_def AlignTop_def AlignBottom_def AlignVCenter_def
  AlignBaseline_def AlignCenter_def

datatype LayoutDirection = LeftToRight | RightToLeft | LayoutDirectionAuto

subsection \<open>\<open>QSize\<close>, \<open>QRect\<close>, \<open>QSizePolicy\<close>\<close>

record QSize =
  width :: int
  height :: int

text \<open>
  \<open>QWidget.geometry()\<close> is a \<open>QRect\<close>, the integer rectangle. A \<open>QRect\<close> stores its two
  corners: \<open>QRect(x, y, w, h)\<close> has the corners \<open>(x, y)\<close> and \<open>(x + w - 1, y + h - 1)\<close>, and
  \<open>width()\<close> is \<open>x2 - x1 + 1\<close>. \<open>right()\<close> and \<open>bottom()\<close> return the stored corner; the
  class documentation says of them that, for historical reasons, they return
  \<open>left() + width() - 1\<close> and \<open>top() + height() - 1\<close>, and that \<open>x() + width()\<close> and
  \<open>y() + height()\<close> are the true coordinates of the edges.
\<close>

record QRect =
  x1 :: int
  y1 :: int
  x2 :: int
  y2 :: int

definition mkRect :: "int \<Rightarrow> int \<Rightarrow> int \<Rightarrow> int \<Rightarrow> QRect" where
  "mkRect x y w h = \<lparr>x1 = x, y1 = y, x2 = x + w - 1, y2 = y + h - 1\<rparr>"

definition rleft :: "QRect \<Rightarrow> int" where "rleft r = x1 r"
definition rtop :: "QRect \<Rightarrow> int" where "rtop r = y1 r"
definition rright :: "QRect \<Rightarrow> int" where "rright r = x2 r"
definition rbottom :: "QRect \<Rightarrow> int" where "rbottom r = y2 r"
definition rwidth :: "QRect \<Rightarrow> int" where "rwidth r = x2 r - x1 r + 1"
definition rheight :: "QRect \<Rightarrow> int" where "rheight r = y2 r - y1 r + 1"

lemmas rect_defs = mkRect_def rleft_def rtop_def rright_def rbottom_def rwidth_def rheight_def

datatype Policy =
  Fixed | Minimum | Maximum | Preferred | Expanding | MinimumExpanding | Ignored

record QSizePolicy =
  horizontalPolicy :: Policy
  verticalPolicy :: Policy

subsection \<open>Widgets\<close>

datatype qcall =
    SetParent
  | SetMinimumWidth int
  | SetMinimumHeight int
  | SetSizePolicy Policy Policy
  | SetGeometry int int int int

record QWidget =
  sizeHint :: QSize
  geometry :: QRect
  layoutDirection :: LayoutDirection
  minimumWidth :: int
  minimumHeight :: int
  sizePolicy :: QSizePolicy
  calls :: "qcall list"

definition setParent :: "QWidget \<Rightarrow> QWidget" where
  "setParent w = w\<lparr>calls := calls w @ [SetParent]\<rparr>"

definition setMinimumWidth :: "QWidget \<Rightarrow> int \<Rightarrow> QWidget" where
  "setMinimumWidth w v = w\<lparr>minimumWidth := v, calls := calls w @ [SetMinimumWidth v]\<rparr>"

definition setMinimumHeight :: "QWidget \<Rightarrow> int \<Rightarrow> QWidget" where
  "setMinimumHeight w v = w\<lparr>minimumHeight := v, calls := calls w @ [SetMinimumHeight v]\<rparr>"

definition setSizePolicy :: "QWidget \<Rightarrow> Policy \<Rightarrow> Policy \<Rightarrow> QWidget" where
  "setSizePolicy w h v =
     w\<lparr>sizePolicy := \<lparr>horizontalPolicy = h, verticalPolicy = v\<rparr>,
       calls := calls w @ [SetSizePolicy h v]\<rparr>"

definition setGeometry :: "QWidget \<Rightarrow> int \<Rightarrow> int \<Rightarrow> int \<Rightarrow> int \<Rightarrow> QWidget" where
  "setGeometry w x y wd ht =
     w\<lparr>geometry := mkRect x y wd ht, calls := calls w @ [SetGeometry x y wd ht]\<rparr>"

lemmas setter_defs =
  setParent_def setMinimumWidth_def setMinimumHeight_def setSizePolicy_def setGeometry_def

section \<open>\<open>StackedWidget\<close>\<close>

datatype QEvent = QShowEvent | QResizeEvent QSize QSize

datatype super_call = SuperShowEvent QEvent | SuperResizeEvent QEvent

record StackedWidget =
  parent :: "nat option"
  margin :: int
  alignment :: Alignment
  bottom_widget :: QWidget
  top_widget :: QWidget
  super_calls :: "super_call list"

text \<open>
  \<open>StackedWidget.__init__\<close>. The two layouts and the container only fix the widget tree;
  of that part the model keeps the reparenting of the top widget. The last branch is three
  \<open>if\<close> statements in a row, each working on the state the one before left.
\<close>

definition init_width_unify :: "StackedWidget \<Rightarrow> StackedWidget" where
  "init_width_unify self =
     (if alignment self \<in> set [AlignAbsolute, AlignJustify] then
        (let w = max (width (sizeHint (top_widget self))) (width (sizeHint (bottom_widget self)));
             self = self\<lparr>top_widget := setMinimumWidth (top_widget self) w\<rparr>;
             self = self\<lparr>bottom_widget := setMinimumWidth (bottom_widget self) (w + margin self)\<rparr>
         in self\<lparr>top_widget := setSizePolicy (top_widget self) MinimumExpanding
                     (verticalPolicy (sizePolicy (top_widget self)))\<rparr>)
      else self)"

definition init_height_unify :: "StackedWidget \<Rightarrow> StackedWidget" where
  "init_height_unify self =
     (if alignment self \<in> set [AlignBaseline, AlignJustify] then
        (let h = max (height (sizeHint (top_widget self))) (height (sizeHint (bottom_widget self)));
             self = self\<lparr>top_widget := setMinimumHeight (top_widget self) h\<rparr>;
             self = self\<lparr>bottom_widget := setMinimumHeight (bottom_widget self) (h + margin self)\<rparr>
         in self\<lparr>top_widget := setSizePolicy (top_widget self)
                     (horizontalPolicy (sizePolicy (top_widget self))) MinimumExpanding\<rparr>)
      else self)"

definition init_center :: "StackedWidget \<Rightarrow> StackedWidget" where
  "init_center self =
     (if alignment self \<in> set [AlignCenter, AlignVCenter, AlignHCenter] then
        (let margin_horizontal =
               (if alignment self \<in> set [AlignCenter, AlignHCenter] then margin self else 0);
             margin_vertical =
               (if alignment self \<in> set [AlignCenter, AlignVCenter] then margin self else 0);
             self = self\<lparr>bottom_widget := setMinimumWidth (bottom_widget self)
                      (max (width (sizeHint (bottom_widget self)))
                           (width (sizeHint (top_widget self)) + margin_horizontal))\<rparr>
         in self\<lparr>bottom_widget := setMinimumHeight (bottom_widget self)
                      (max (height (sizeHint (bottom_widget self)))
                           (height (sizeHint (top_widget self)) + margin_vertical))\<rparr>)
      else self)"

definition init :: "QWidget \<Rightarrow> QWidget \<Rightarrow> nat option \<Rightarrow> int \<Rightarrow> Alignment \<Rightarrow> StackedWidget" where
  "init bottom_w top_w par m a =
     (let self = \<lparr>parent = par, margin = m, alignment = a, bottom_widget = bottom_w,
                  top_widget = top_w, super_calls = []\<rparr>;
          self = self\<lparr>top_widget := setParent (top_widget self)\<rparr>
      in if alignment self \<in> set [AlignRight, AlignLeft, AlignLeading, AlignTrailing] then
           self\<lparr>bottom_widget := setMinimumWidth (bottom_widget self)
                  (width (sizeHint (bottom_widget self))
                   + 2 * (width (sizeHint (top_widget self)) + margin self))\<rparr>
         else if alignment self \<in> set [AlignTop, AlignBottom] then
           self\<lparr>bottom_widget := setMinimumHeight (bottom_widget self)
                  (height (sizeHint (bottom_widget self))
                   + 2 * (height (sizeHint (top_widget self)) + margin self))\<rparr>
         else init_center (init_height_unify (init_width_unify self)))"

text \<open>
  \<open>StackedWidget.resizeEvent\<close>: one \<open>if\<close>/\<open>elif\<close> chain with no \<open>else\<close>, then the call of
  the superclass handler when the event is not \<open>None\<close>.
\<close>

definition resizeEvent :: "StackedWidget \<Rightarrow> QEvent option \<Rightarrow> StackedWidget" where
  "resizeEvent self event =
     (let g = geometry (bottom_widget self);
          top_width = width (sizeHint (top_widget self));
          top_height = height (sizeHint (top_widget self));
          self =
            (if alignment self = AlignRight
                \<or> (alignment self = AlignLeading
                     \<and> layoutDirection (bottom_widget self) = RightToLeft)
                \<or> (alignment self = AlignTrailing
                     \<and> layoutDirection (bottom_widget self) = LeftToRight) then
               self\<lparr>top_widget := setGeometry (top_widget self)
                      (rright g - margin self - top_width)
                      (rtop g + (rheight g - top_height) div 2)
                      top_width
                      top_height\<rparr>
             else if alignment self = AlignLeft
                \<or> (alignment self = AlignLeading
                     \<and> layoutDirection (bottom_widget self) = LeftToRight)
                \<or> (alignment self = AlignTrailing
                     \<and> layoutDirection (bottom_widget self) = RightToLeft) then
               self\<lparr>top_widget := setGeometry (top_widget self)
                      (rleft g + margin self)
                      (rtop g + (rheight g - top_height) div 2)
                      top_width
                      top_height\<rparr>
             else if alignment self = AlignTop then
               self\<lparr>top_widget := setGeometry (top_widget self)
                      (rleft g + (rwidth g - top_width) div 2)
                      (rtop g + margin self)
                      top_width
                      top_height\<rparr>
             else if alignment self = AlignBottom then
               self\<lparr>top_widget := setGeometry (top_widget self)
                      (rleft g + (rwidth g - top_width) div 2)
                      (rbottom g - margin self - top_height)
                      top_width
                      top_height\<rparr>
             else if alignment self \<in> set [AlignCenter, AlignVCenter, AlignHCenter] then
               self\<lparr>top_widget := setGeometry (top_widget self)
                      (rleft g + (rwidth g - top_width) div 2
                       + (if alignment self = AlignVCenter then 0 else margin self))
                      (rtop g + (rheight g - top_height) div 2
                       + (if alignment self = AlignHCenter then 0 else margin self))
                      top_width
                      top_height\<rparr>
             else if alignment self = AlignJustify then
               self\<lparr>top_widget := setGeometry (top_widget self)
                      (rleft g + margin self div 2)
                      (rtop g + margin self div 2)
                      (rwidth g - margin self)
                      (rheight g - margin self)\<rparr>
             else if alignment self = AlignAbsolute then
               self\<lparr>top_widget := setGeometry (top_widget self)
                      (rleft g + margin self div 2)
                      (rtop g + (rheight g - top_height) div 2)
                      (rwidth g - margin self)
                      top_height\<rparr>
             else if alignment self = AlignBaseline then
               self\<lparr>top_widget := setGeometry (top_widget self)
                      (rleft g + (rwidth g - top_width) div 2)
                      (rtop g + margin self div 2)
                      top_width
                      (rheight g - margin self)\<rparr>
             else self)
      in case event of
           None \<Rightarrow> self
         | Some e \<Rightarrow> self\<lparr>super_calls := super_calls self @ [SuperResizeEvent e]\<rparr>)"

text \<open>\<open>StackedWidget.showEvent\<close>.\<close>

definition showEvent :: "StackedWidget \<Rightarrow> QEvent \<Rightarrow> StackedWidget" where
  "showEvent self event =
     (let self = resizeEvent self None
      in self\<lparr>super_calls := super_calls self @ [SuperShowEvent event]\<rparr>)"

text \<open>
  The alignment constants the \<open>if\<close>/\<open>elif\<close> chain of \<open>resizeEvent\<close> compares against,
  in the order of their first appearance there.
\<close>

definition handled_alignments :: "Alignment list" where
  "handled_alignments =
     [AlignRight, AlignLeading, AlignTrailing, AlignLeft, AlignTop, AlignBottom,
      AlignCenter, AlignVCenter, AlignHCenter, AlignJustify, AlignAbsolute, AlignBaseline]"

text \<open>
  The specification's table row for Center/HCenter/VCenter, word for word (it is compared
  with \<open>resizeEvent\<close> below): \<open>x = G.left + (G.width - topW)/2 [+margin unless HCenter]\<close>,
  \<open>y = G.top + (G.height - topH)/2 [+margin unless VCenter]\<close>, \<open>w = topW\<close>, \<open>h = topH\<close>.
\<close>

definition spec_center_rect :: "Alignment \<Rightarrow> int \<Rightarrow> QRect \<Rightarrow> int \<Rightarrow> int \<Rightarrow> QRect" where
  "spec_center_rect a m g topW topH =
     mkRect (rleft g + (rwidth g - topW) div 2 + (if a = AlignHCenter then 0 else m))
            (rtop g + (rheight g - topH) div 2 + (if a = AlignVCenter then 0 else m))
            topW topH"

text \<open>
  The widgets of the specification's test table: a bottom widget whose geometry is
  \<open>(0, 0, 200, 100)\<close> and a top widget whose preferred size is \<open>(40, 20)\<close>.
\<close>

definition example_bottom :: QWidget where
  "example_bottom =
     \<lparr>sizeHint = \<lparr>width = 80, height = 30\<rparr>, geometry = mkRect 0 0 200 100,
      layoutDirection = LeftToRight, minimumWidth = 0, minimumHeight = 0,
      sizePolicy = \<lparr>horizontalPolicy = Minimum, verticalPolicy = Fixed\<rparr>, calls = []\<rparr>"

definition example_top :: QWidget where
  "example_top =
     \<lparr>sizeHint = \<lparr>width = 40, height = 20\<rparr>, geometry = mkRect 0 0 100 30,
      layoutDirection = LeftToRight, minimumWidth = 0, minimumHeight = 0,
      sizePolicy = \<lparr>horizontalPolicy = Minimum, verticalPolicy = Fixed\<rparr>, calls = []\<rparr>"

section \<open>The binding resolver of \<open>balQt/__init__.py\<close>\<close>

text \<open>
  The module-level code and \<open>import_qt_module\<close> talk to the interpreter through
  \<open>sys.modules\<close> and \<open>importlib.import_module\<close>. An import returns a module, raises
  \<open>ImportError\<close> (of which \<open>ModuleNotFoundError\<close> is a subclass) or raises some other
  exception; the two handlers of the module tell these apart (\<open>except Exception\<close> in the
  first loop, \<open>except ImportError\<close> in the second and in \<open>import_qt_module\<close>). The outcome
  of an import is taken to depend on the name alone. Every function returns, next to its
  result, the names it passed to \<open>import_module\<close>, in order.
\<close>

datatype module = ModuleType string

datatype import_result = Imported module | RaisesImportError string | RaisesException string

datatype py_error = ImportError string | OtherException string

record interpreter =
  sys_modules :: "string list"
  import_module :: "string \<Rightarrow> import_result"

definition supported_qt_bindings :: "string list" where
  "supported_qt_bindings = [''PySide6'', ''PyQt6'', ''PyQt5'', ''PySide2'', ''PyQt4'', ''PySide'']"

text \<open>Truth value of an \<open>Optional[str]\<close>: \<open>None\<close> and the empty string are false.\<close>

fun truthy :: "string option \<Rightarrow> bool" where
  "truthy None = False"
| "truthy (Some s) = (s \<noteq> [])"

text \<open>The first loop: bindings already in \<open>sys.modules\<close>, any exception ignored.\<close>

fun loaded_scan :: "interpreter \<Rightarrow> string list \<Rightarrow> string option \<times> string list" where
  "loaded_scan py [] = (None, [])"
| "loaded_scan py (qt_binding # rest) =
     (if qt_binding \<in> set (sys_modules py) then
        (case import_module py (qt_binding @ ''.QtCore'') of
           Imported _ \<Rightarrow> (Some qt_binding, [qt_binding @ ''.QtCore''])
         | RaisesImportError _ \<Rightarrow>
             (case loaded_scan py rest of (r, tr) \<Rightarrow> (r, (qt_binding @ ''.QtCore'') # tr))
         | RaisesException _ \<Rightarrow>
             (case loaded_scan py rest of (r, tr) \<Rightarrow> (r, (qt_binding @ ''.QtCore'') # tr)))
      else loaded_scan py rest)"

text \<open>The second loop: only \<open>ImportError\<close> is caught, anything else leaves the module.\<close>

fun import_scan ::
    "interpreter \<Rightarrow> string list \<Rightarrow> (py_error + string option) \<times> string list" where
  "import_scan py [] = (Inr None, [])"
| "import_scan py (qt_binding # rest) =
     (case import_module py (qt_binding @ ''.QtCore'') of
        Imported _ \<Rightarrow> (Inr (Some qt_binding), [qt_binding @ ''.QtCore''])
      | RaisesImportError _ \<Rightarrow>
          (case import_scan py rest of (r, tr) \<Rightarrow> (r, (qt_binding @ ''.QtCore'') # tr))
      | RaisesException e \<Rightarrow> (Inl (OtherException e), [qt_binding @ ''.QtCore'']))"

text \<open>
  Lines 12 to 40 of the module: the value of \<open>QtBindings\<close> once the module has been
  initialised, or the exception that ends the initialisation.
\<close>

definition resolve_QtBindings :: "interpreter \<Rightarrow> (py_error + string) \<times> string list" where
  "resolve_QtBindings py =
     (case loaded_scan py supported_qt_bindings of
        (QtBindings, tr1) \<Rightarrow>
          (case (if \<not> truthy QtBindings then import_scan py supported_qt_bindings
                 else (Inr QtBindings, [])) of
             (Inl e, tr2) \<Rightarrow> (Inl e, tr1 @ tr2)
           | (Inr QtBindings, tr2) \<Rightarrow>
               (case QtBindings of
                  None \<Rightarrow>
                    (Inl (ImportError ''Cannot load any of the supported Qt bindings: PySide6, PyQt6, PyQt5, PySide2, PyQt4, PySide''),
                     tr1 @ tr2)
                | Some b \<Rightarrow>
                    (if b = [] then
                       (Inl (ImportError ''Cannot load any of the supported Qt bindings: PySide6, PyQt6, PyQt5, PySide2, PyQt4, PySide''),
                        tr1 @ tr2)
                     else (Inr b, tr1 @ tr2)))))"

fun import_qt_module ::
    "interpreter \<Rightarrow> string option \<Rightarrow> string \<Rightarrow> (py_error + module) \<times> string list" where
  "import_qt_module py None module_name = (Inl (ImportError ''No Qt binding loaded.''), [])"
| "import_qt_module py (Some QtBindings) module_name =
     (if QtBindings \<noteq> [] then
        (case import_module py (QtBindings @ ''.'' @ module_name) of
           Imported m \<Rightarrow> (Inr m, [QtBindings @ ''.'' @ module_name])
         | RaisesImportError e \<Rightarrow>
             (Inl (ImportError (''Module '' @ [CHR 0x27] @ module_name @ [CHR 0x27]
                                 @ '' could not be loaded: '' @ e)),
              [QtBindings @ ''.'' @ module_name])
         | RaisesException e \<Rightarrow> (Inl (OtherException e), [QtBindings @ ''.'' @ module_name]))
      else (Inl (ImportError ''No Qt binding loaded.''), []))"

text \<open>The module's \<open>__getattr__\<close>.\<close>

definition module_getattr ::
    "interpreter \<Rightarrow> string option \<Rightarrow> string \<Rightarrow> (py_error + module) \<times> string list" where
  "module_getattr py QtBindings name = import_qt_module py QtBindings name"

text \<open>
  Vocabulary for the statements about the resolver: the import of a binding's \<open>QtCore\<close>
  succeeds; it raises \<open>ImportError\<close>; the binding is in \<open>sys.modules\<close> and its \<open>QtCore\<close>
  imports (the test the first loop makes).
\<close>

definition imports_ok :: "interpreter \<Rightarrow> string \<Rightarrow> bool" where
  "imports_ok py b =
     (case import_module py (b @ ''.QtCore'') of Imported _ \<Rightarrow> True | _ \<Rightarrow> False)"

definition import_fails :: "interpreter \<Rightarrow> string \<Rightarrow> bool" where
  "import_fails py b =
     (case import_module py (b @ ''.QtCore'') of RaisesImportError _ \<Rightarrow> True | _ \<Rightarrow> False)"

definition already_loaded :: "interpreter \<Rightarrow> string \<Rightarrow> bool" where
  "already_loaded py b = (b \<in> set (sys_modules py) \<and> imports_ok py b)"

text \<open>
  Two interpreters: one where PySide6 and PyQt5 are installed and PyQt5 has been
  imported before, one where no binding is installed.
\<close>

definition example_py :: interpreter where
  "example_py =
     \<lparr>sys_modules = [''os'', ''PyQt5'', ''PyQt5.QtCore''],
      import_module =
        (\<lambda>n. if n \<in> set [''PySide6.QtCore'', ''PyQt5.QtCore'', ''PyQt5.QtWidgets'']
              then Imported (ModuleType n)
              else RaisesImportError (''No module named '' @ [CHR 0x27] @ n @ [CHR 0x27]))\<rparr>"

definition nothing_installed :: interpreter where
  "nothing_installed =
     \<lparr>sys_modules = [''os'', ''sys''],
      import_module =
        (\<lambda>n. RaisesImportError (''No module named '' @ [CHR 0x27] @ n @ [CHR 0x27]))\<rparr>"

text \<open>
  Interpreters where an import raises something other than \<open>ImportError\<close>, as a binding
  does that is installed but broken (a \<open>RuntimeError\<close> from its initialisation, a
  \<open>SyntaxError\<close> from a package written for another Python). \<open>broken_pyside6_py\<close> and
  \<open>missing_pyside6_py\<close> both have PyQt5 installed and nothing imported before; in the first
  PySide6 is broken, in the second it is absent. In \<open>only_broken_py\<close> PySide6 is broken and
  nothing else is installed. In \<open>broken_submodule_py\<close> PyQt5 is the active binding and its
  submodule \<open>QtBad\<close> raises \<open>ValueError\<close> when imported.
\<close>

definition broken_pyside6_py :: interpreter where
  "broken_pyside6_py =
     \<lparr>sys_modules = [''os'', ''sys''],
      import_module =
        (\<lambda>n. if n = ''PySide6.QtCore'' then RaisesException ''RuntimeError: boom''
              else if n = ''PyQt5.QtCore'' then Imported (ModuleType n)
              else RaisesImportError (''No module named '' @ [CHR 0x27] @ n @ [CHR 0x27]))\<rparr>"

definition missing_pyside6_py :: interpreter where
  "missing_pyside6_py =
     \<lparr>sys_modules = [''os'', ''sys''],
      import_module =
        (\<lambda>n. if n = ''PyQt5.QtCore'' then Imported (ModuleType n)
              else RaisesImportError (''No module named '' @ [CHR 0x27] @ n @ [CHR 0x27]))\<rparr>"

definition only_broken_py :: interpreter where
  "only_broken_py =
     \<lparr>sys_modules = [''os'', ''sys''],
      import_module =
        (\<lambda>n. if n = ''PySide6.QtCore'' then RaisesException ''RuntimeError: boom''
              else RaisesImportError (''No module named '' @ [CHR 0x27] @ n @ [CHR 0x27]))\<rparr>"




section \<open>Facts about the toolkit values\<close>

lemma Align_values:
  "AlignLeft = 1" "AlignLeading = 1" "AlignRight = 2" "AlignTrailing = 2" "AlignHCenter = 4"
  "AlignJustify = 8" "AlignAbsolute = 16" "AlignTop = 32" "AlignBottom = 64"
  "AlignVCenter = 128" "AlignBaseline = 256" "AlignCenter = 132"
  by (simp_all add: Align_defs)

lemma leading_trailing_aliases: "AlignLeading = AlignLeft" "AlignTrailing = AlignRight"
  by (simp_all add: Align_defs)

lemma mkRect_eq_iff:
  "mkRect x y w h = mkRect x' y' w' h' \<longleftrightarrow> x = x' \<and> y = y' \<and> w = w' \<and> h = h'"
  by (auto simp add: mkRect_def)

lemma mkRect_accessors:
  "rleft (mkRect x y w h) = x" "rtop (mkRect x y w h) = y"
  "rwidth (mkRect x y w h) = w" "rheight (mkRect x y w h) = h"
  "rright (mkRect x y w h) = x + w - 1" "rbottom (mkRect x y w h) = y + h - 1"
  by (simp_all add: rect_defs)

lemmas example_defs = example_bottom_def example_top_def

section \<open>What the constructor leaves alone\<close>

lemma init_width_unify_frame:
  "margin (init_width_unify s) = margin s"
  "alignment (init_width_unify s) = alignment s"
  "geometry (bottom_widget (init_width_unify s)) = geometry (bottom_widget s)"
  "layoutDirection (bottom_widget (init_width_unify s)) = layoutDirection (bottom_widget s)"
  "sizeHint (bottom_widget (init_width_unify s)) = sizeHint (bottom_widget s)"
  "sizeHint (top_widget (init_width_unify s)) = sizeHint (top_widget s)"
  unfolding init_width_unify_def Let_def by (simp_all add: setter_defs)

lemma init_height_unify_frame:
  "margin (init_height_unify s) = margin s"
  "alignment (init_height_unify s) = alignment s"
  "geometry (bottom_widget (init_height_unify s)) = geometry (bottom_widget s)"
  "layoutDirection (bottom_widget (init_height_unify s)) = layoutDirection (bottom_widget s)"
  "sizeHint (bottom_widget (init_height_unify s)) = sizeHint (bottom_widget s)"
  "sizeHint (top_widget (init_height_unify s)) = sizeHint (top_widget s)"
  unfolding init_height_unify_def Let_def by (simp_all add: setter_defs)

lemma init_center_frame:
  "margin (init_center s) = margin s"
  "alignment (init_center s) = alignment s"
  "geometry (bottom_widget (init_center s)) = geometry (bottom_widget s)"
  "layoutDirection (bottom_widget (init_center s)) = layoutDirection (bottom_widget s)"
  "sizeHint (bottom_widget (init_center s)) = sizeHint (bottom_widget s)"
  "sizeHint (top_widget (init_center s)) = sizeHint (top_widget s)"
  unfolding init_center_def Let_def by (simp_all add: setter_defs)

lemma init_fields:
  "margin (init b t p m a) = m"
  "alignment (init b t p m a) = a"
  "geometry (bottom_widget (init b t p m a)) = geometry b"
  "layoutDirection (bottom_widget (init b t p m a)) = layoutDirection b"
  "sizeHint (top_widget (init b t p m a)) = sizeHint t"
  unfolding init_def Let_def
  by (simp_all add: init_width_unify_frame init_height_unify_frame init_center_frame setter_defs)

section \<open>What a resize reads and writes\<close>

lemma resizeEvent_bottom: "bottom_widget (resizeEvent self ev) = bottom_widget self"
  unfolding resizeEvent_def Let_def by (cases ev) simp_all

lemma resizeEvent_margin: "margin (resizeEvent self ev) = margin self"
  unfolding resizeEvent_def Let_def by (cases ev) simp_all

lemma resizeEvent_alignment: "alignment (resizeEvent self ev) = alignment self"
  unfolding resizeEvent_def Let_def by (cases ev) simp_all

lemma resizeEvent_sizeHint:
  "sizeHint (top_widget (resizeEvent self ev)) = sizeHint (top_widget self)"
  unfolding resizeEvent_def Let_def by (cases ev) (simp_all add: setGeometry_def)

lemma resizeEvent_any_event:
  "top_widget (resizeEvent self ev) = top_widget (resizeEvent self None)"
  unfolding resizeEvent_def Let_def by (cases ev) simp_all

lemma resizeEvent_fallthrough:
  assumes "alignment self \<notin> set handled_alignments"
  shows "top_widget (resizeEvent self ev) = top_widget self"
  using assms unfolding resizeEvent_def Let_def handled_alignments_def
  by (cases ev) simp_all

lemma resizeEvent_handled:
  assumes "alignment self \<in> set handled_alignments"
    and "alignment self' = alignment self" and "margin self' = margin self"
    and "bottom_widget self' = bottom_widget self"
    and "sizeHint (top_widget self') = sizeHint (top_widget self)"
  shows "geometry (top_widget (resizeEvent self' None))
       = geometry (top_widget (resizeEvent self None))"
  using assms unfolding resizeEvent_def Let_def handled_alignments_def
  by (auto simp add: setGeometry_def Align_values)

lemma resizeEvent_twice:
  "geometry (top_widget (resizeEvent (resizeEvent self e1) e2))
     = geometry (top_widget (resizeEvent self e1))"
proof (cases "alignment self \<in> set handled_alignments")
  case True
  have "geometry (top_widget (resizeEvent (resizeEvent self e1) None))
      = geometry (top_widget (resizeEvent self None))"
    by (rule resizeEvent_handled [OF True])
       (simp_all add: resizeEvent_alignment resizeEvent_margin resizeEvent_bottom
          resizeEvent_sizeHint)
  then show ?thesis
    using resizeEvent_any_event [of "resizeEvent self e1" e2]
      resizeEvent_any_event [of self e1] by simp
next
  case False
  then have "alignment (resizeEvent self e1) \<notin> set handled_alignments"
    by (simp add: resizeEvent_alignment)
  then show ?thesis by (simp add: resizeEvent_fallthrough)
qed

text \<open>
  The rectangle of the first branch and of the second, for every state that takes the
  branch.
\<close>

lemma resizeEvent_right_rect:
  assumes "alignment self = AlignRight"
  shows "geometry (top_widget (resizeEvent self ev)) =
     mkRect (rright (geometry (bottom_widget self)) - margin self
               - width (sizeHint (top_widget self)))
            (rtop (geometry (bottom_widget self))
               + (rheight (geometry (bottom_widget self)) - height (sizeHint (top_widget self))) div 2)
            (width (sizeHint (top_widget self)))
            (height (sizeHint (top_widget self)))"
  using assms unfolding resizeEvent_any_event [of self ev]
  unfolding resizeEvent_def Let_def by (simp add: setGeometry_def)

lemma resizeEvent_left_rect:
  assumes "alignment self = AlignLeft"
    and "layoutDirection (bottom_widget self) \<noteq> RightToLeft"
  shows "geometry (top_widget (resizeEvent self ev)) =
     mkRect (rleft (geometry (bottom_widget self)) + margin self)
            (rtop (geometry (bottom_widget self))
               + (rheight (geometry (bottom_widget self)) - height (sizeHint (top_widget self))) div 2)
            (width (sizeHint (top_widget self)))
            (height (sizeHint (top_widget self)))"
  using assms unfolding resizeEvent_any_event [of self ev]
  unfolding resizeEvent_def Let_def by (simp add: setGeometry_def Align_values)

text \<open>
  The free space the two branches leave beside the top widget: \<open>margin\<close> on the left for
  Left, \<open>margin + 1\<close> on the right for Right.
\<close>

lemma left_gap:
  assumes "alignment self = AlignLeft"
    and "layoutDirection (bottom_widget self) \<noteq> RightToLeft"
  shows "rleft (geometry (top_widget (resizeEvent self ev)))
           - rleft (geometry (bottom_widget self)) = margin self"
  by (simp add: resizeEvent_left_rect [OF assms] mkRect_accessors)

lemma right_gap:
  assumes "alignment self = AlignRight"
  shows "(rleft (geometry (bottom_widget self)) + rwidth (geometry (bottom_widget self)))
           - (rleft (geometry (top_widget (resizeEvent self ev)))
              + rwidth (geometry (top_widget (resizeEvent self ev)))) = margin self + 1"
  by (simp add: resizeEvent_right_rect [OF assms] mkRect_accessors) (simp add: rect_defs)

text \<open>
  Leading and Trailing. \<open>AlignTrailing\<close> is the flag \<open>AlignRight\<close>, so the first test of the
  chain takes it whatever the direction; \<open>AlignLeading\<close> is the flag \<open>AlignLeft\<close> and
  follows the direction.
\<close>

lemma trailing_ignores_direction:
  assumes "alignment self = AlignTrailing"
  shows "geometry (top_widget (resizeEvent self ev)) =
     mkRect (rright (geometry (bottom_widget self)) - margin self
               - width (sizeHint (top_widget self)))
            (rtop (geometry (bottom_widget self))
               + (rheight (geometry (bottom_widget self)) - height (sizeHint (top_widget self))) div 2)
            (width (sizeHint (top_widget self)))
            (height (sizeHint (top_widget self)))"
  using assms by (intro resizeEvent_right_rect) (simp add: Align_defs)

lemma leading_follows_direction:
  assumes "alignment self = AlignLeading"
  shows "geometry (top_widget (resizeEvent self ev)) =
     mkRect (if layoutDirection (bottom_widget self) = RightToLeft
             then rright (geometry (bottom_widget self)) - margin self
                    - width (sizeHint (top_widget self))
             else rleft (geometry (bottom_widget self)) + margin self)
            (rtop (geometry (bottom_widget self))
               + (rheight (geometry (bottom_widget self)) - height (sizeHint (top_widget self))) div 2)
            (width (sizeHint (top_widget self)))
            (height (sizeHint (top_widget self)))"
  using assms unfolding resizeEvent_any_event [of self ev]
  unfolding resizeEvent_def Let_def by (simp add: setGeometry_def Align_values)

section \<open>The two scans\<close>

lemma supported_nonempty: "b \<in> set supported_qt_bindings \<Longrightarrow> b \<noteq> []"
  by (auto simp add: supported_qt_bindings_def)

lemma loaded_scan_none:
  "\<forall>c\<in>set bs. \<not> already_loaded py c \<Longrightarrow> fst (loaded_scan py bs) = None"
  by (induction bs)
     (auto simp add: already_loaded_def imports_ok_def split: import_result.splits prod.splits)

lemma loaded_scan_first:
  "\<forall>c\<in>set pre. \<not> already_loaded py c \<Longrightarrow> already_loaded py b
     \<Longrightarrow> fst (loaded_scan py (pre @ b # post)) = Some b"
  by (induction pre)
     (auto simp add: already_loaded_def imports_ok_def split: import_result.splits prod.splits)

lemma loaded_scan_mem: "fst (loaded_scan py bs) = Some b \<Longrightarrow> b \<in> set bs"
  by (induction bs) (auto split: import_result.splits prod.splits if_splits)

lemma loaded_scan_all_fail:
  "\<forall>c\<in>set bs. import_fails py c
     \<Longrightarrow> loaded_scan py bs =
           (None, map (\<lambda>b. b @ ''.QtCore'') (filter (\<lambda>b. b \<in> set (sys_modules py)) bs))"
  by (induction bs) (auto simp add: import_fails_def split: import_result.splits prod.splits)

lemma loaded_scan_cong:
  "\<forall>c\<in>set bs. (c \<in> set (sys_modules py) \<longleftrightarrow> c \<in> set (sys_modules py'))
        \<and> import_module py (c @ ''.QtCore'') = import_module py' (c @ ''.QtCore'')
   \<Longrightarrow> loaded_scan py bs = loaded_scan py' bs"
  by (induction bs) (auto split: import_result.splits prod.splits)

lemma import_scan_first:
  "\<forall>c\<in>set pre. import_fails py c \<Longrightarrow> imports_ok py b
     \<Longrightarrow> fst (import_scan py (pre @ b # post)) = Inr (Some b)"
  by (induction pre)
     (auto simp add: import_fails_def imports_ok_def split: import_result.splits prod.splits)

lemma import_scan_mem: "fst (import_scan py bs) = Inr (Some b) \<Longrightarrow> b \<in> set bs"
  by (induction bs) (auto split: import_result.splits prod.splits if_splits)

lemma import_scan_none:
  "\<forall>c\<in>set bs. import_fails py c
     \<Longrightarrow> import_scan py bs = (Inr None, map (\<lambda>b. b @ ''.QtCore'') bs)"
  by (induction bs) (auto simp add: import_fails_def split: import_result.splits prod.splits)

lemma import_scan_cong:
  "\<forall>c\<in>set bs. import_module py (c @ ''.QtCore'') = import_module py' (c @ ''.QtCore'')
   \<Longrightarrow> import_scan py bs = import_scan py' bs"
  by (induction bs) (auto split: import_result.splits prod.splits)

text \<open>The chosen binding, without the list of imports.\<close>

lemma resolve_fst:
  "fst (resolve_QtBindings py) =
     (case fst (loaded_scan py supported_qt_bindings) of
        Some b \<Rightarrow> Inr b
      | None \<Rightarrow>
         (case fst (import_scan py supported_qt_bindings) of
            Inl e \<Rightarrow> Inl e
          | Inr (Some b) \<Rightarrow> Inr b
          | Inr None \<Rightarrow> Inl (ImportError ''Cannot load any of the supported Qt bindings: PySide6, PyQt6, PyQt5, PySide2, PyQt4, PySide'')))"
proof (cases "fst (loaded_scan py supported_qt_bindings)")
  case None
  then obtain tr1 where l: "loaded_scan py supported_qt_bindings = (None, tr1)"
    by (cases "loaded_scan py supported_qt_bindings") auto
  obtain r tr2 where i: "import_scan py supported_qt_bindings = (r, tr2)"
    by (cases "import_scan py supported_qt_bindings") auto
  show ?thesis
  proof (cases r)
    case (Inl e)
    with l i show ?thesis by (simp add: resolve_QtBindings_def)
  next
    case (Inr q)
    show ?thesis
    proof (cases q)
      case None
      with l i Inr show ?thesis by (simp add: resolve_QtBindings_def)
    next
      case (Some b)
      with i Inr have "b \<in> set supported_qt_bindings"
        using import_scan_mem [of py supported_qt_bindings b] by simp
      then have "b \<noteq> []" by (rule supported_nonempty)
      with l i Inr Some show ?thesis by (simp add: resolve_QtBindings_def)
    qed
  qed
next
  case (Some b)
  then obtain tr1 where l: "loaded_scan py supported_qt_bindings = (Some b, tr1)"
    by (cases "loaded_scan py supported_qt_bindings") auto
  from Some have "b \<in> set supported_qt_bindings" by (rule loaded_scan_mem)
  then have "b \<noteq> []" by (rule supported_nonempty)
  with l show ?thesis by (simp add: resolve_QtBindings_def)
qed


lemma message_names_all:
  "list_all (\<lambda>b. \<exists>p s. ''Cannot load any of the supported Qt bindings: PySide6, PyQt6, PyQt5, PySide2, PyQt4, PySide'' = p @ b @ s) supported_qt_bindings"
  unfolding supported_qt_bindings_def list.pred_inject
  apply (intro conjI TrueI)
  apply (rule exI [of _ "''Cannot load any of the supported Qt bindings: ''"], rule exI [of _ "'', PyQt6, PyQt5, PySide2, PyQt4, PySide''"], simp)
  apply (rule exI [of _ "''Cannot load any of the supported Qt bindings: PySide6, ''"], rule exI [of _ "'', PyQt5, PySide2, PyQt4, PySide''"], simp)
  apply (rule exI [of _ "''Cannot load any of the supported Qt bindings: PySide6, PyQt6, ''"], rule exI [of _ "'', PySide2, PyQt4, PySide''"], simp)
  apply (rule exI [of _ "''Cannot load any of the supported Qt bindings: PySide6, PyQt6, PyQt5, ''"], rule exI [of _ "'', PyQt4, PySide''"], simp)
  apply (rule exI [of _ "''Cannot load any of the supported Qt bindings: PySide6, PyQt6, PyQt5, PySide2, ''"], rule exI [of _ "'', PySide''"], simp)
  apply (rule exI [of _ "''Cannot load any of the supported Qt bindings: PySide6, PyQt6, PyQt5, PySide2, PyQt4, ''"], rule exI [of _ "[]"], simp)
  apply simp
  done

section \<open>The overlay widget: the claims\<close>

text \<open>
  C1. The specification's test table: overlay constructed with margin 10, bottom geometry
  \<open>(0, 0, 200, 100)\<close>, top preferred size \<open>(40, 20)\<close>, then a resize. The table gives
  \<open>(150, 40, 40, 20)\<close> for Right and \<open>(80, 70, 40, 20)\<close> for Bottom. The code computes
  \<open>(149, 40, 40, 20)\<close> and \<open>(80, 69, 40, 20)\<close>: it subtracts from \<open>geometry.right()\<close> and
  \<open>geometry.bottom()\<close>, which are one less than \<open>left + width\<close> and \<open>top + height\<close>.
  Left, Top and Center (with the margin added on both axes) come out as the table says.
\<close>

theorem resize_at_spec_table_input:
  "geometry (top_widget (resizeEvent (init example_bottom example_top None 10 AlignRight) ev))
     = mkRect 149 40 40 20
   \<and> geometry (top_widget (resizeEvent (init example_bottom example_top None 10 AlignRight) ev))
     \<noteq> mkRect 150 40 40 20
   \<and> geometry (top_widget (resizeEvent (init example_bottom example_top None 10 AlignLeft) ev))
     = mkRect 10 40 40 20
   \<and> geometry (top_widget (resizeEvent (init example_bottom example_top None 10 AlignTop) ev))
     = mkRect 80 10 40 20
   \<and> geometry (top_widget (resizeEvent (init example_bottom example_top None 10 AlignBottom) ev))
     = mkRect 80 69 40 20
   \<and> geometry (top_widget (resizeEvent (init example_bottom example_top None 10 AlignBottom) ev))
     \<noteq> mkRect 80 70 40 20
   \<and> geometry (top_widget (resizeEvent (init example_bottom example_top None 10 AlignCenter) ev))
     = mkRect 90 50 40 20"
  unfolding resizeEvent_any_event [of _ ev]
  by (simp add: resizeEvent_def init_fields Let_def example_defs setGeometry_def Align_values
        mkRect_accessors mkRect_eq_iff)

text \<open>
  C2, as the specification states it: for Center, HCenter and VCenter the margin is added
  to x unless the alignment is HCenter and to y unless it is VCenter. At HCenter with the
  test-table widgets the code yields \<open>(90, 40, 40, 20)\<close>, the stated rule \<open>(80, 50, 40, 20)\<close>.
\<close>

theorem center_margin_rule_counterexample:
  "geometry (top_widget (resizeEvent (init example_bottom example_top None 10 AlignHCenter) None))
     = mkRect 90 40 40 20
   \<and> spec_center_rect AlignHCenter 10 (mkRect 0 0 200 100) 40 20 = mkRect 80 50 40 20
   \<and> geometry (top_widget (resizeEvent (init example_bottom example_top None 10 AlignHCenter) None))
     \<noteq> spec_center_rect AlignHCenter 10 (mkRect 0 0 200 100) 40 20"
  by (simp add: resizeEvent_def init_fields Let_def example_defs setGeometry_def Align_values
        mkRect_accessors mkRect_eq_iff spec_center_rect_def)

text \<open>
  C2, amended: for Center, HCenter and VCenter the top widget's rectangle has
  \<open>x = G.left + (G.width - topW) div 2\<close>, plus the margin unless the alignment is VCenter,
  \<open>y = G.top + (G.height - topH) div 2\<close>, plus the margin unless the alignment is HCenter,
  width \<open>topW\<close> and height \<open>topH\<close>. This is the rule of the constructor as well, which adds
  the margin horizontally for Center and HCenter and vertically for Center and VCenter.
\<close>

theorem center_rect:
  assumes "alignment self \<in> set [AlignCenter, AlignVCenter, AlignHCenter]"
  shows "geometry (top_widget (resizeEvent self ev)) =
     mkRect (rleft (geometry (bottom_widget self))
               + (rwidth (geometry (bottom_widget self)) - width (sizeHint (top_widget self))) div 2
               + (if alignment self = AlignVCenter then 0 else margin self))
            (rtop (geometry (bottom_widget self))
               + (rheight (geometry (bottom_widget self)) - height (sizeHint (top_widget self))) div 2
               + (if alignment self = AlignHCenter then 0 else margin self))
            (width (sizeHint (top_widget self)))
            (height (sizeHint (top_widget self)))"
  using assms unfolding resizeEvent_any_event [of self ev]
  unfolding resizeEvent_def Let_def
  by (auto simp add: setGeometry_def Align_values)

theorem center_rect_witness:
  "geometry (top_widget (resizeEvent (init example_bottom example_top None 10 AlignHCenter) None))
     = mkRect 90 40 40 20
   \<and> geometry (top_widget (resizeEvent (init example_bottom example_top None 10 AlignVCenter) None))
     = mkRect 80 50 40 20"
  using center_rect [of "init example_bottom example_top None 10 AlignHCenter" None]
    center_rect [of "init example_bottom example_top None 10 AlignVCenter" None]
  by (simp add: init_fields example_defs mkRect_accessors Align_values)

text \<open>
  C6. Alignment Trailing on a bottom widget whose direction is right-to-left, test-table
  widgets, margin 10: the code places the top widget at the Right rectangle
  \<open>(149, 40, 40, 20)\<close>, not at the Left rectangle \<open>(10, 40, 40, 20)\<close>, because
  \<open>Qt.AlignTrailing\<close> is the same flag as \<open>Qt.AlignRight\<close> and the first test of the chain
  takes it; the third disjunct of the second test is never reached. Leading does swap,
  and under left-to-right both behave as stated.
\<close>

theorem trailing_right_to_left:
  "geometry (top_widget (resizeEvent
       (init (example_bottom\<lparr>layoutDirection := RightToLeft\<rparr>) example_top None 10 AlignTrailing) ev))
     = mkRect 149 40 40 20
   \<and> geometry (top_widget (resizeEvent
       (init (example_bottom\<lparr>layoutDirection := RightToLeft\<rparr>) example_top None 10 AlignTrailing) ev))
     \<noteq> mkRect 10 40 40 20
   \<and> geometry (top_widget (resizeEvent
       (init (example_bottom\<lparr>layoutDirection := RightToLeft\<rparr>) example_top None 10 AlignLeading) ev))
     = mkRect 149 40 40 20
   \<and> geometry (top_widget (resizeEvent
       (init (example_bottom\<lparr>layoutDirection := LeftToRight\<rparr>) example_top None 10 AlignLeading) ev))
     = mkRect 10 40 40 20
   \<and> geometry (top_widget (resizeEvent
       (init (example_bottom\<lparr>layoutDirection := LeftToRight\<rparr>) example_top None 10 AlignTrailing) ev))
     = mkRect 149 40 40 20"
  unfolding resizeEvent_any_event [of _ ev]
  by (simp add: resizeEvent_def init_fields Let_def example_defs setGeometry_def Align_values
        mkRect_accessors mkRect_eq_iff)

text \<open>
  C7. Resizing twice gives the rectangle that resizing once gives, for every alignment,
  margin, bottom geometry and preferred size and whatever the two events are; and a
  resize changes none of the values it reads (the bottom widget, the margin, the
  alignment, the top widget's preferred size).
\<close>

theorem resize_idempotent:
  "geometry (top_widget (resizeEvent (resizeEvent self e1) e2))
     = geometry (top_widget (resizeEvent self e1))
   \<and> bottom_widget (resizeEvent self e1) = bottom_widget self
   \<and> margin (resizeEvent self e1) = margin self
   \<and> alignment (resizeEvent self e1) = alignment self
   \<and> sizeHint (top_widget (resizeEvent self e1)) = sizeHint (top_widget self)"
  by (simp add: resizeEvent_twice resizeEvent_bottom resizeEvent_margin resizeEvent_alignment
        resizeEvent_sizeHint)

text \<open>
  C8. Constructed with Right, Left, Leading or Trailing and any margin \<open>m\<close>, the bottom
  widget differs from the one passed in by exactly one call,
  \<open>setMinimumWidth(bottom preferred width + 2 * (top preferred width + m))\<close>; its minimum
  height is the one it had.
\<close>

theorem init_side_alignment_minimum_width:
  assumes "a \<in> set [AlignRight, AlignLeft, AlignLeading, AlignTrailing]"
  shows "bottom_widget (init b t p m a) =
      b\<lparr>minimumWidth := width (sizeHint b) + 2 * (width (sizeHint t) + m),
        calls := calls b @ [SetMinimumWidth (width (sizeHint b) + 2 * (width (sizeHint t) + m))]\<rparr>
    \<and> minimumHeight (bottom_widget (init b t p m a)) = minimumHeight b"
  using assms unfolding init_def Let_def by (simp add: setter_defs)

theorem init_side_alignment_minimum_width_witness:
  "minimumWidth (bottom_widget (init example_bottom example_top None 10 AlignLeft)) = 180
   \<and> calls (bottom_widget (init example_bottom example_top None 10 AlignLeft))
       = [SetMinimumWidth 180]
   \<and> minimumHeight (bottom_widget (init example_bottom example_top None 10 AlignLeft)) = 0"
  using init_side_alignment_minimum_width [of AlignLeft example_bottom example_top None 10]
  by (simp add: example_defs)

text \<open>
  C9. When the alignment is none of the twelve constants the chain compares against
  (\<open>AlignLeft | AlignTop\<close>, say), a resize leaves the top widget as it was: no setter is
  called on it. The bottom widget is untouched too, and with a \<open>None\<close> event the whole
  state is unchanged. The handler has no failing path.
\<close>

theorem resize_unhandled_alignment:
  assumes "alignment self \<notin> set handled_alignments"
  shows "top_widget (resizeEvent self ev) = top_widget self
       \<and> bottom_widget (resizeEvent self ev) = bottom_widget self
       \<and> resizeEvent self None = self"
  using assms unfolding resizeEvent_def Let_def handled_alignments_def
  by (cases ev) simp_all

theorem resize_unhandled_alignment_witness:
  "AlignLeft OR AlignTop \<notin> set handled_alignments
   \<and> top_widget (resizeEvent (init example_bottom example_top None 10 (AlignLeft OR AlignTop))
        (Some (QResizeEvent \<lparr>width = 300, height = 100\<rparr> \<lparr>width = 200, height = 100\<rparr>)))
       = setParent example_top"
  using resize_unhandled_alignment
    [of "init example_bottom example_top None 10 (AlignLeft OR AlignTop)"
        "Some (QResizeEvent \<lparr>width = 300, height = 100\<rparr> \<lparr>width = 200, height = 100\<rparr>)"]
  by (simp add: init_fields handled_alignments_def Align_values init_def Let_def
        init_center_def init_width_unify_def init_height_unify_def)

text \<open>
  C10. A show event runs the resize handler with \<open>None\<close> and then the superclass show
  handler; the top widget ends up exactly as after a real resize event; the superclass
  resize handler is called for a real event and not for \<open>None\<close>, so a show event adds the
  superclass show call only.
\<close>

theorem showEvent_synthetic_resize:
  "showEvent self event =
     (resizeEvent self None)\<lparr>super_calls := super_calls self @ [SuperShowEvent event]\<rparr>
   \<and> top_widget (showEvent self event) = top_widget (resizeEvent self (Some e))
   \<and> super_calls (resizeEvent self None) = super_calls self
   \<and> super_calls (resizeEvent self (Some e)) = super_calls self @ [SuperResizeEvent e]
   \<and> super_calls (showEvent self event) = super_calls self @ [SuperShowEvent event]"
  unfolding showEvent_def Let_def resizeEvent_any_event [of self "Some e"]
  by (simp add: resizeEvent_def Let_def)

section \<open>The resolver when the failing imports raise \<open>ImportError\<close>\<close>

text \<open>
  Let \<open>b\<close> stand at some place of the priority list PySide6, PyQt6, PyQt5, PySide2, PyQt4,
  PySide, with \<open>pre\<close> the bindings before it. (1) If \<open>b\<close> is already loaded (it is in
  \<open>sys.modules\<close> and its \<open>QtCore\<close> imports) and no binding before it is, \<open>b\<close> is chosen,
  whether or not a binding before it could be imported. (2) If no binding is already
  loaded, \<open>b\<close> can be imported and every binding before it fails with \<open>ImportError\<close>, \<open>b\<close> is
  chosen. (3) Two interpreters that agree on the six bindings' membership in \<open>sys.modules\<close>
  and on their import outcomes, the exception raised included, give the same result and
  the same sequence of imports.
\<close>

lemma resolution_when_failures_are_ImportError:
  assumes "supported_qt_bindings = pre @ b # post"
  shows "supported_qt_bindings = [''PySide6'', ''PyQt6'', ''PyQt5'', ''PySide2'', ''PyQt4'', ''PySide'']
       \<and> (already_loaded py b \<and> (\<forall>c\<in>set pre. \<not> already_loaded py c)
            \<longrightarrow> fst (resolve_QtBindings py) = Inr b)
       \<and> ((\<forall>c\<in>set supported_qt_bindings. \<not> already_loaded py c)
            \<and> imports_ok py b \<and> (\<forall>c\<in>set pre. import_fails py c)
            \<longrightarrow> fst (resolve_QtBindings py) = Inr b)
       \<and> ((\<forall>c\<in>set supported_qt_bindings.
               (c \<in> set (sys_modules py) \<longleftrightarrow> c \<in> set (sys_modules py'))
               \<and> import_module py (c @ ''.QtCore'') = import_module py' (c @ ''.QtCore''))
            \<longrightarrow> resolve_QtBindings py = resolve_QtBindings py')"
proof (intro conjI impI)
  show "supported_qt_bindings = [''PySide6'', ''PyQt6'', ''PyQt5'', ''PySide2'', ''PyQt4'', ''PySide'']"
    by (rule supported_qt_bindings_def)
next
  assume "already_loaded py b \<and> (\<forall>c\<in>set pre. \<not> already_loaded py c)"
  then have "fst (loaded_scan py (pre @ b # post)) = Some b"
    by (simp add: loaded_scan_first)
  then show "fst (resolve_QtBindings py) = Inr b"
    by (simp add: resolve_fst assms)
next
  assume h: "(\<forall>c\<in>set supported_qt_bindings. \<not> already_loaded py c)
            \<and> imports_ok py b \<and> (\<forall>c\<in>set pre. import_fails py c)"
  then have "fst (loaded_scan py supported_qt_bindings) = None"
    by (simp add: loaded_scan_none)
  moreover from h have "fst (import_scan py (pre @ b # post)) = Inr (Some b)"
    by (simp add: import_scan_first)
  ultimately show "fst (resolve_QtBindings py) = Inr b"
    by (simp add: resolve_fst assms [symmetric])
next
  assume h: "\<forall>c\<in>set supported_qt_bindings.
               (c \<in> set (sys_modules py) \<longleftrightarrow> c \<in> set (sys_modules py'))
               \<and> import_module py (c @ ''.QtCore'') = import_module py' (c @ ''.QtCore'')"
  then have l: "loaded_scan py supported_qt_bindings = loaded_scan py' supported_qt_bindings"
    by (rule loaded_scan_cong)
  from h have i: "import_scan py supported_qt_bindings = import_scan py' supported_qt_bindings"
    by (intro import_scan_cong) simp
  show "resolve_QtBindings py = resolve_QtBindings py'"
    unfolding resolve_QtBindings_def l i by (rule refl)
qed

lemma resolution_example:
  "already_loaded example_py ''PyQt5''
   \<and> imports_ok example_py ''PySide6''
   \<and> fst (resolve_QtBindings example_py) = Inr ''PyQt5''
   \<and> fst (resolve_QtBindings (example_py\<lparr>sys_modules := [''os'']\<rparr>)) = Inr ''PySide6''"
  using resolution_when_failures_are_ImportError
          [of "[''PySide6'', ''PyQt6'']" "''PyQt5''" "[''PySide2'', ''PyQt4'', ''PySide'']"
              example_py example_py]
        resolution_when_failures_are_ImportError
          [of "[]" "''PySide6''" "[''PyQt6'', ''PyQt5'', ''PySide2'', ''PyQt4'', ''PySide'']"
              "example_py\<lparr>sys_modules := [''os'']\<rparr>" example_py]
  by (simp add: supported_qt_bindings_def example_py_def already_loaded_def imports_ok_def
        import_fails_def)

text \<open>
  When the \<open>QtCore\<close> import of every supported binding raises \<open>ImportError\<close>, the
  initialisation ends with the \<open>ImportError\<close> whose message contains the name of each of
  the six bindings; the second loop has tried each binding once, in order, after the first
  loop tried those found in \<open>sys.modules\<close>.
\<close>

lemma startup_error_when_failures_are_ImportError:
  assumes "\<forall>b\<in>set supported_qt_bindings. import_fails py b"
  shows "resolve_QtBindings py =
     (Inl (ImportError ''Cannot load any of the supported Qt bindings: PySide6, PyQt6, PyQt5, PySide2, PyQt4, PySide''),
      map (\<lambda>b. b @ ''.QtCore'') (filter (\<lambda>b. b \<in> set (sys_modules py)) supported_qt_bindings)
      @ map (\<lambda>b. b @ ''.QtCore'') supported_qt_bindings)
   \<and> list_all (\<lambda>b. \<exists>p s. ''Cannot load any of the supported Qt bindings: PySide6, PyQt6, PyQt5, PySide2, PyQt4, PySide'' = p @ b @ s)
        supported_qt_bindings"
  using assms message_names_all
  by (simp add: resolve_QtBindings_def loaded_scan_all_fail import_scan_none)

lemma startup_error_example:
  "resolve_QtBindings nothing_installed =
     (Inl (ImportError ''Cannot load any of the supported Qt bindings: PySide6, PyQt6, PyQt5, PySide2, PyQt4, PySide''),
      [''PySide6.QtCore'', ''PyQt6.QtCore'', ''PyQt5.QtCore'', ''PySide2.QtCore'', ''PyQt4.QtCore'',
       ''PySide.QtCore''])"
  using startup_error_when_failures_are_ImportError [of nothing_installed]
  by (simp add: supported_qt_bindings_def nothing_installed_def import_fails_def)

section \<open>The binding resolver: the claims\<close>

text \<open>
  C3. Binding resolution as a function of which bindings can be imported and which are
  already loaded. \<open>broken_pyside6_py\<close> and \<open>missing_pyside6_py\<close> agree, for each of the six
  bindings, on whether it can be imported and on whether it is already loaded: PyQt5 can
  be imported, nothing else can, nothing is loaded. With PySide6 absent the module chooses
  PyQt5. With PySide6 broken the second loop, which catches \<open>ImportError\<close> only, lets the
  \<open>RuntimeError\<close> of the first import leave the module: no binding is chosen and PyQt5 is
  never tried. The first loop catches \<open>Exception\<close> at the same place, and the comment of the
  second reads "skip to the next binding on failure".
\<close>

theorem resolution_depends_on_exception_kind:
  "list_all (\<lambda>b. imports_ok broken_pyside6_py b = imports_ok missing_pyside6_py b
                \<and> already_loaded broken_pyside6_py b = already_loaded missing_pyside6_py b)
      supported_qt_bindings
   \<and> imports_ok broken_pyside6_py ''PyQt5''
   \<and> resolve_QtBindings missing_pyside6_py =
       (Inr ''PyQt5'', [''PySide6.QtCore'', ''PyQt6.QtCore'', ''PyQt5.QtCore''])
   \<and> resolve_QtBindings broken_pyside6_py =
       (Inl (OtherException ''RuntimeError: boom''), [''PySide6.QtCore''])"
  by (simp add: resolve_QtBindings_def supported_qt_bindings_def broken_pyside6_py_def
        missing_pyside6_py_def imports_ok_def already_loaded_def)




text \<open>
  C5. No supported binding can be loaded, and the module is to end with the
  \<open>ImportError\<close> that names all six. In \<open>only_broken_py\<close> no binding can be imported:
  PySide6 raises \<open>RuntimeError\<close>, the other five are absent. The initialisation ends with
  that \<open>RuntimeError\<close> after the first import of the second loop; the other five bindings
  are not tried and the \<open>ImportError\<close> of line 40 is not raised.
\<close>

theorem broken_binding_startup:
  "list_all (\<lambda>b. \<not> imports_ok only_broken_py b) supported_qt_bindings
   \<and> resolve_QtBindings only_broken_py =
       (Inl (OtherException ''RuntimeError: boom''), [''PySide6.QtCore''])
   \<and> fst (resolve_QtBindings only_broken_py) \<noteq>
       Inl (ImportError ''Cannot load any of the supported Qt bindings: PySide6, PyQt6, PyQt5, PySide2, PyQt4, PySide'')"
  by (simp add: resolve_QtBindings_def supported_qt_bindings_def only_broken_py_def
        imports_ok_def)

end
